theory Spec2Isabelle
  imports Main "HOL-Library.Word"
begin

unbundle bit_operations_syntax

section \<open>Machine integers and constants\<close>

type_synonym u8 = "8 word"
type_synonym u16 = "16 word"
type_synonym u32 = "32 word"

text \<open>Package \<open>constants\<close>.\<close>

definition DefaultClientWindowSize :: u32 where
  "DefaultClientWindowSize = 2500000"

definition DefaultPublishStream :: u32 where
  "DefaultPublishStream = 0"

definition DefaultChunkSize :: u32 where
  "DefaultChunkSize = 4096"

definition DefaultStreamID :: int where
  "DefaultStreamID = 1"

text \<open>Chunk types, limit types and the initial chunk size of the chunk handler.\<close>

definition ChunkType0 :: u8 where "ChunkType0 = 0"
definition ChunkType1 :: u8 where "ChunkType1 = 1"
definition ChunkType2 :: u8 where "ChunkType2 = 2"
definition ChunkType3 :: u8 where "ChunkType3 = 3"

definition DefaultMaximumChunkSize :: u32 where
  "DefaultMaximumChunkSize = 128"

definition LimitHard :: u8 where "LimitHard = 0"
definition LimitSoft :: u8 where "LimitSoft = 1"
definition LimitDynamic :: u8 where "LimitDynamic = 2"
definition LimitNotSet :: u8 where "LimitNotSet = 3"

section \<open>Errors\<close>

text \<open>
  Every way in which a modelled function fails: the two errors of \<open>io.ReadFull\<close> and
  \<open>ReadByte\<close>, the errors the sources construct themselves, and the run-time panics of Go
  (an index or slice bound out of range, a nil pointer dereferenced).
\<close>

datatype error =
    EOF
  | ErrUnexpectedEOF
  | UnknownChunkType
  | AssembleError error
  | KeyNotFound string
  | NotAString string
  | AlreadyExists
  | NotFound
  | PanicIndexOutOfRange
  | PanicSliceBounds
  | PanicNilPointer

text \<open>
  A panic is not an error value that a caller can test and wrap: it unwinds through every
  caller.
\<close>

fun isPanic :: "error \<Rightarrow> bool" where
  "isPanic PanicIndexOutOfRange = True"
| "isPanic PanicSliceBounds = True"
| "isPanic PanicNilPointer = True"
| "isPanic err = False"

section \<open>Package amf: metadata objects\<close>

text \<open>
  A value of Go's \<open>any\<close> stored in a metadata object. The sources only ask whether it is
  nil and whether it is a string; every other dynamic type is \<open>AnyOther\<close>.
\<close>

datatype any = AnyNil | AnyString string | AnyOther

text \<open>
  \<open>amf.Metadata\<close> is a Go map. \<open>Get\<close> ranges over it and returns at the first key that
  matches, so the order of iteration decides among keys that differ only in case: the
  object is the list of its entries in the order the range statement visits them.
\<close>

type_synonym Metadata = "(string \<times> any) list"

text \<open>
  \<open>strings.EqualFold\<close> of the Go library, for the case that one of the two strings is
  ASCII, as every key is that the sources look up. A string is the list of its bytes in
  UTF-8. Under Unicode simple case folding an ASCII letter equals its other case, the
  letter \<open>s\<close> also equals the rune U+017F (bytes C5 BF) and the letter \<open>k\<close> also equals the
  rune U+212A (bytes E2 84 AA); no other rune, and no byte that is not valid UTF-8, equals
  an ASCII character. \<open>foldRunes\<close> maps every rune that equals an ASCII letter under
  folding to the lower-case letter and keeps every other byte.
\<close>

definition lower :: "char \<Rightarrow> char" where
  "lower c = (let n = (of_char c :: nat) in if 65 \<le> n \<and> n \<le> 90 then char_of (n + 32) else c)"

definition isLongS :: "char \<Rightarrow> char \<Rightarrow> bool" where
  "isLongS a b = ((of_char a :: nat) = 0xC5 \<and> (of_char b :: nat) = 0xBF)"

definition isKelvin :: "char \<Rightarrow> char \<Rightarrow> char \<Rightarrow> bool" where
  "isKelvin a b c =
     ((of_char a :: nat) = 0xE2 \<and> (of_char b :: nat) = 0x84 \<and> (of_char c :: nat) = 0xAA)"

fun foldRunes :: "string \<Rightarrow> string" where
  "foldRunes [] = []"
| "foldRunes [a] = [lower a]"
| "foldRunes [a, b] = (if isLongS a b then [CHR ''s''] else lower a # foldRunes [b])"
| "foldRunes (a # b # c # cs) =
     (if isKelvin a b c then CHR ''k'' # foldRunes cs
      else if isLongS a b then CHR ''s'' # foldRunes (c # cs)
      else lower a # foldRunes (b # c # cs))"

definition EqualFold :: "string \<Rightarrow> string \<Rightarrow> bool" where
  "EqualFold s t = (foldRunes s = foldRunes t)"

fun Get :: "Metadata \<Rightarrow> string \<Rightarrow> any" where
  "Get [] key = AnyNil"
| "Get ((k, v) # m) key = (if EqualFold k key then v else Get m key)"

definition GetString :: "Metadata \<Rightarrow> string \<Rightarrow> string \<times> error option" where
  "GetString m key =
     (case Get m key of
        AnyNil \<Rightarrow> ([], Some (KeyNotFound key))
      | AnyString str \<Rightarrow> (str, None)
      | AnyOther \<Rightarrow> ([], Some (NotAString key)))"

section \<open>Sessions, the broadcaster and what a handler does to the outside\<close>

text \<open>
  Modelled from the spec: packages \<open>audio\<close> and \<open>video\<close> are not among the sources. The
  format of an audio message and the codec of a video message are decoded from the first
  payload byte; the session compares them with \<open>audio.AAC\<close> and \<open>video.H264\<close> only. The
  packet type in payload byte 1 is compared with \<open>AACSequenceHeader = 0\<close> and
  \<open>AVCSequenceHeader = 0\<close>.
\<close>

datatype Format = AAC | MP3 | OtherFormat

datatype Codec = H264 | H263 | OtherCodec

definition AACSequenceHeader :: u8 where "AACSequenceHeader = 0"
definition AVCSequenceHeader :: u8 where "AVCSequenceHeader = 0"

text \<open>
  The fields of \<open>Session\<close> that the handlers read or write. A callback field holds whether
  a callback is installed. The message manager and the broadcaster are reached through the
  state below; the logger and the client metadata are not used by any handler.
\<close>

record Session =
  id_sess :: string
  active :: bool
  OnAudio :: bool
  OnVideo :: bool
  OnMetadata :: bool
  app :: string
  flashVer :: string
  swfUrl :: string
  tcUrl :: string
  amfType :: string
  streamKey :: string
  publishingType :: string
  isPublisher :: bool
  isPlayer :: bool
  isClient :: bool

text \<open>
  Modelled from the spec: the context store behind the broadcaster (\<open>ContextStore\<close>, created
  by \<open>NewInMemoryContext\<close>) is not among the sources. It maps a stream key to a publisher
  entry, which holds the subscribers (by session id, in registration order) and the cached
  AAC and AVC sequence headers.
\<close>

record publisher_entry =
  subscribers :: "string list"
  aacSequenceHeader :: "u8 list option"
  avcSequenceHeader :: "u8 list option"

type_synonym ContextStore = "string \<rightharpoonup> publisher_entry"

text \<open>
  A session guard is the result of its \<open>Check\<close> on a session; a nil guard is \<open>None\<close>. A
  call of its \<open>End\<close> is recorded with the id of the session.
\<close>

record broadcaster =
  appName :: string
  ctx :: ContextStore
  sessionGuard :: "(Session \<Rightarrow> bool) option"

text \<open>
  The message manager is not among the sources either. A handler's calls on it, on the
  client callbacks and on the subscribers of a stream are recorded, in the order they are
  made, together with the calls that change the context store.
\<close>

datatype event =
    MM_sendWindowAckSize u32
  | MM_sendSetPeerBandWidth u32 u8
  | MM_sendBeginStream u32
  | MM_sendSetChunkSize u32
  | MM_sendConnectSuccess u32
  | MM_sendStatusMessage string string string "string list"
  | MM_sendVideo "u8 list" u32
  | MM_sendAudio "u8 list" u32
  | MM_SetBandwidth u32 u8
  | Callback_OnAudio Format "u8 list" u32
  | Callback_OnVideo Codec "u8 list" u32
  | Sub_SendAudio string "u8 list" u32
  | Sub_SendVideo string "u8 list" u32
  | Sub_SendEndOfStream string
  | Guard_End string
  | Ctx_RegisterPublisher string
  | Ctx_RegisterSubscriber string string
  | Ctx_DestroyPublisher string
  | Ctx_DestroySubscriber string string
  | Ctx_SetAacSequenceHeader string "u8 list"
  | Ctx_SetAvcSequenceHeader string "u8 list"

record state =
  session :: Session
  bcast :: broadcaster
  trace :: "event list"

definition NewSession :: "string \<Rightarrow> Session" where
  "NewSession uuid =
     \<lparr>id_sess = uuid, active = True, OnAudio = False, OnVideo = False, OnMetadata = False,
      app = [], flashVer = [], swfUrl = [], tcUrl = [], amfType = [], streamKey = [],
      publishingType = [], isPublisher = False, isPlayer = False, isClient = False\<rparr>"

definition NewBroadcaster :: "string \<Rightarrow> ContextStore \<Rightarrow> broadcaster" where
  "NewBroadcaster name c = \<lparr>appName = name, ctx = c, sessionGuard = None\<rparr>"

definition emit :: "event \<Rightarrow> state \<Rightarrow> state" where
  "emit e st = st\<lparr>trace := trace st @ [e]\<rparr>"

subsection \<open>The context store\<close>

text \<open>
  Modelled from the spec: \<open>register_publisher\<close> fails with \<open>AlreadyExists\<close> if a live
  publisher holds the key, otherwise it creates an empty entry.
\<close>

definition ctx_RegisterPublisher :: "ContextStore \<Rightarrow> string \<Rightarrow> error option \<times> ContextStore" where
  "ctx_RegisterPublisher c key =
     (case c key of
        Some e \<Rightarrow> (Some AlreadyExists, c)
      | None \<Rightarrow> (None, c(key \<mapsto> \<lparr>subscribers = [], aacSequenceHeader = None,
                                  avcSequenceHeader = None\<rparr>)))"

text \<open>
  Modelled from the spec: \<open>register_subscriber\<close> fails with \<open>NotFound\<close> if there is no
  publisher entry; a retry with the same session id replaces the prior reference.
\<close>

definition ctx_RegisterSubscriber ::
  "ContextStore \<Rightarrow> string \<Rightarrow> string \<Rightarrow> error option \<times> ContextStore" where
  "ctx_RegisterSubscriber c key sub =
     (case c key of
        None \<Rightarrow> (Some NotFound, c)
      | Some e \<Rightarrow> (None, c(key \<mapsto> e\<lparr>subscribers := removeAll sub (subscribers e) @ [sub]\<rparr>)))"

text \<open>Modelled from the spec: a stream exists when its key has a publisher entry.\<close>

definition ctx_StreamExists :: "ContextStore \<Rightarrow> string \<Rightarrow> bool" where
  "ctx_StreamExists c key = (c key \<noteq> None)"

text \<open>
  Modelled from the spec: the setters overwrite the cached bytes of the entry, the getters
  return them; a key without an entry has no cached bytes (a nil slice) and nothing to set.
\<close>

definition ctx_SetAacSequenceHeaderForPublisher :: "ContextStore \<Rightarrow> string \<Rightarrow> u8 list \<Rightarrow> ContextStore" where
  "ctx_SetAacSequenceHeaderForPublisher c key payload =
     (case c key of None \<Rightarrow> c | Some e \<Rightarrow> c(key \<mapsto> e\<lparr>aacSequenceHeader := Some payload\<rparr>))"

definition ctx_SetAvcSequenceHeaderForPublisher :: "ContextStore \<Rightarrow> string \<Rightarrow> u8 list \<Rightarrow> ContextStore" where
  "ctx_SetAvcSequenceHeaderForPublisher c key payload =
     (case c key of None \<Rightarrow> c | Some e \<Rightarrow> c(key \<mapsto> e\<lparr>avcSequenceHeader := Some payload\<rparr>))"

definition ctx_GetAacSequenceHeaderForPublisher :: "ContextStore \<Rightarrow> string \<Rightarrow> u8 list option" where
  "ctx_GetAacSequenceHeaderForPublisher c key =
     (case c key of None \<Rightarrow> None | Some e \<Rightarrow> aacSequenceHeader e)"

definition ctx_GetAvcSequenceHeaderForPublisher :: "ContextStore \<Rightarrow> string \<Rightarrow> u8 list option" where
  "ctx_GetAvcSequenceHeaderForPublisher c key =
     (case c key of None \<Rightarrow> None | Some e \<Rightarrow> avcSequenceHeader e)"

text \<open>
  Modelled from the spec: the broadcast operations enumerate the current subscribers of
  the entry; without an entry there is nothing to enumerate and the store reports
  \<open>NotFound\<close>.
\<close>

definition ctx_GetSubscribersForStream :: "ContextStore \<Rightarrow> string \<Rightarrow> error + string list" where
  "ctx_GetSubscribersForStream c key =
     (case c key of None \<Rightarrow> Inl NotFound | Some e \<Rightarrow> Inr (subscribers e))"

text \<open>
  Modelled from the spec: \<open>destroy_publisher\<close> removes the entry of the key, with its
  subscriber set and its cached sequence headers; \<open>destroy_subscriber\<close> takes the session
  id out of the subscribers of the entry and is a no-op if it is absent. The spec names no
  failure of either.
\<close>

definition ctx_DestroyPublisher :: "ContextStore \<Rightarrow> string \<Rightarrow> error option \<times> ContextStore" where
  "ctx_DestroyPublisher c key = (None, c(key := None))"

definition ctx_DestroySubscriber ::
  "ContextStore \<Rightarrow> string \<Rightarrow> string \<Rightarrow> error option \<times> ContextStore" where
  "ctx_DestroySubscriber c key sub =
     (case c key of
        None \<Rightarrow> (None, c)
      | Some e \<Rightarrow> (None, c(key \<mapsto> e\<lparr>subscribers := removeAll sub (subscribers e)\<rparr>)))"

subsection \<open>broadcaster.go\<close>

text \<open>
  Each method of the broadcaster forwards to the context store. A method that returns an
  error returns it next to the new state.
\<close>

definition RegisterPublisher :: "string \<Rightarrow> state \<Rightarrow> error option \<times> state" where
  "RegisterPublisher key st =
     (case ctx_RegisterPublisher (ctx (bcast st)) key of
        (err, c) \<Rightarrow> (err, emit (Ctx_RegisterPublisher key) (st\<lparr>bcast := (bcast st)\<lparr>ctx := c\<rparr>\<rparr>)))"

definition RegisterSubscriber :: "string \<Rightarrow> string \<Rightarrow> state \<Rightarrow> error option \<times> state" where
  "RegisterSubscriber key sub st =
     (case ctx_RegisterSubscriber (ctx (bcast st)) key sub of
        (err, c) \<Rightarrow> (err, emit (Ctx_RegisterSubscriber key sub) (st\<lparr>bcast := (bcast st)\<lparr>ctx := c\<rparr>\<rparr>)))"

definition StreamExists :: "string \<Rightarrow> state \<Rightarrow> bool" where
  "StreamExists key st = ctx_StreamExists (ctx (bcast st)) key"

definition GetAvcSequenceHeaderForPublisher :: "string \<Rightarrow> state \<Rightarrow> u8 list option" where
  "GetAvcSequenceHeaderForPublisher key st = ctx_GetAvcSequenceHeaderForPublisher (ctx (bcast st)) key"

definition GetAacSequenceHeaderForPublisher :: "string \<Rightarrow> state \<Rightarrow> u8 list option" where
  "GetAacSequenceHeaderForPublisher key st = ctx_GetAacSequenceHeaderForPublisher (ctx (bcast st)) key"

definition SetAvcSequenceHeaderForPublisher :: "string \<Rightarrow> u8 list \<Rightarrow> state \<Rightarrow> state" where
  "SetAvcSequenceHeaderForPublisher key payload st =
     emit (Ctx_SetAvcSequenceHeader key payload)
       (st\<lparr>bcast := (bcast st)\<lparr>ctx := ctx_SetAvcSequenceHeaderForPublisher (ctx (bcast st)) key payload\<rparr>\<rparr>)"

definition SetAacSequenceHeaderForPublisher :: "string \<Rightarrow> u8 list \<Rightarrow> state \<Rightarrow> state" where
  "SetAacSequenceHeaderForPublisher key payload st =
     emit (Ctx_SetAacSequenceHeader key payload)
       (st\<lparr>bcast := (bcast st)\<lparr>ctx := ctx_SetAacSequenceHeaderForPublisher (ctx (bcast st)) key payload\<rparr>\<rparr>)"

definition BroadcastAudio :: "string \<Rightarrow> u8 list \<Rightarrow> u32 \<Rightarrow> state \<Rightarrow> error option \<times> state" where
  "BroadcastAudio key audio timestamp st =
     (case ctx_GetSubscribersForStream (ctx (bcast st)) key of
        Inl err \<Rightarrow> (Some err, st)
      | Inr subs \<Rightarrow>
          (None, st\<lparr>trace := trace st @ map (\<lambda>sub. Sub_SendAudio sub audio timestamp) subs\<rparr>))"

definition BroadcastVideo :: "string \<Rightarrow> u8 list \<Rightarrow> u32 \<Rightarrow> state \<Rightarrow> error option \<times> state" where
  "BroadcastVideo key video timestamp st =
     (case ctx_GetSubscribersForStream (ctx (bcast st)) key of
        Inl err \<Rightarrow> (Some err, st)
      | Inr subs \<Rightarrow>
          (None, st\<lparr>trace := trace st @ map (\<lambda>sub. Sub_SendVideo sub video timestamp) subs\<rparr>))"

definition DestroyPublisher :: "string \<Rightarrow> state \<Rightarrow> error option \<times> state" where
  "DestroyPublisher key st =
     (case ctx_DestroyPublisher (ctx (bcast st)) key of
        (err, c) \<Rightarrow> (err, emit (Ctx_DestroyPublisher key) (st\<lparr>bcast := (bcast st)\<lparr>ctx := c\<rparr>\<rparr>)))"

definition DestroySubscriber :: "string \<Rightarrow> string \<Rightarrow> state \<Rightarrow> error option \<times> state" where
  "DestroySubscriber key sessionID st =
     (case ctx_DestroySubscriber (ctx (bcast st)) key sessionID of
        (err, c) \<Rightarrow>
          (err, emit (Ctx_DestroySubscriber key sessionID) (st\<lparr>bcast := (bcast st)\<lparr>ctx := c\<rparr>\<rparr>)))"

definition BroadcastEndOfStream :: "string \<Rightarrow> state \<Rightarrow> state" where
  "BroadcastEndOfStream key st =
     (case ctx_GetSubscribersForStream (ctx (bcast st)) key of
        Inl err \<Rightarrow> st
      | Inr subs \<Rightarrow> st\<lparr>trace := trace st @ map Sub_SendEndOfStream subs\<rparr>)"

definition GetSessionGuard :: "state \<Rightarrow> (Session \<Rightarrow> bool) option" where
  "GetSessionGuard st = sessionGuard (bcast st)"

definition AppName :: "state \<Rightarrow> string" where
  "AppName st = appName (bcast st)"

subsection \<open>session.go\<close>

text \<open>
  The handlers take the arguments their bodies use; the transaction ids, the argument
  objects and the start time of \<open>play\<close> are passed in by the message manager and never
  read. A handler returns the state it leaves; the two media handlers can panic.
\<close>

definition storeMetadata :: "Metadata \<Rightarrow> Session \<Rightarrow> Session" where
  "storeMetadata metadata s =
     s\<lparr>app := fst (GetString metadata ''app''),
       flashVer := fst (GetString metadata ''flashVer''),
       swfUrl := fst (GetString metadata ''swfUrl''),
       tcUrl := fst (GetString metadata ''tcUrl''),
       amfType := fst (GetString metadata ''type'')\<rparr>"

definition onConnect :: "u32 \<Rightarrow> Metadata \<Rightarrow> state \<Rightarrow> state" where
  "onConnect csID data st =
     (let st1 = st\<lparr>session := storeMetadata data (session st)\<rparr> in
      if app (session st1) = AppName st1 then
        (emit (MM_sendConnectSuccess csID)
          (emit (MM_sendSetChunkSize DefaultChunkSize)
            (emit (MM_sendBeginStream DefaultPublishStream)
              (emit (MM_sendSetPeerBandWidth DefaultClientWindowSize LimitDynamic)
                (emit (MM_sendWindowAckSize DefaultClientWindowSize) st1)))))
      else st1\<lparr>session := (session st1)\<lparr>active := False\<rparr>\<rparr>)"

definition onSetBandwidth :: "u32 \<Rightarrow> u8 \<Rightarrow> state \<Rightarrow> state" where
  "onSetBandwidth windowAckSize limitType st = emit (MM_SetBandwidth windowAckSize limitType) st"

definition SendEndOfStream :: "state \<Rightarrow> state" where
  "SendEndOfStream st =
     emit (MM_sendStatusMessage ''status'' ''NetStream.Play.Stop'' ''Stopped playing stream.'' []) st"

definition onPublish :: "string \<Rightarrow> string \<Rightarrow> state \<Rightarrow> state" where
  "onPublish key ptype st =
     (let st1 = st\<lparr>session := (session st)\<lparr>streamKey := key, publishingType := ptype\<rparr>\<rparr> in
      if (case GetSessionGuard st1 of None \<Rightarrow> False | Some Check \<Rightarrow> \<not> Check (session st1)) then
        (let st2 = SendEndOfStream st1 in
         st2\<lparr>session := (session st2)\<lparr>active := False\<rparr>\<rparr>)
      else
        (let st2 = emit (MM_sendStatusMessage ''status'' ''NetStream.Publish.Start''
                           ''Publishing live_user_<x>'' []) st1;
             st3 = st2\<lparr>session := (session st2)\<lparr>isPublisher := True\<rparr>\<rparr>
         in snd (RegisterPublisher key st3)))"

definition onAudioMessage :: "Format \<Rightarrow> u8 list \<Rightarrow> u32 \<Rightarrow> state \<Rightarrow> error + state" where
  "onAudioMessage format payload timestamp st =
     (if OnAudio (session st) then Inr (emit (Callback_OnAudio format payload timestamp) st)
      else if isClient (session st) then Inr st
      else if format = AAC \<and> length payload \<le> 1 then Inl PanicIndexOutOfRange
      else
        (let st1 = (if format = AAC \<and> payload ! 1 = AACSequenceHeader
                    then SetAacSequenceHeaderForPublisher (streamKey (session st)) payload st
                    else st)
         in Inr (snd (BroadcastAudio (streamKey (session st1)) payload timestamp st1))))"

definition onVideoMessage :: "Codec \<Rightarrow> u8 list \<Rightarrow> u32 \<Rightarrow> state \<Rightarrow> error + state" where
  "onVideoMessage codec payload timestamp st =
     (if OnVideo (session st) then Inr (emit (Callback_OnVideo codec payload timestamp) st)
      else if isClient (session st) then Inr st
      else if codec = H264 \<and> length payload \<le> 1 then Inl PanicIndexOutOfRange
      else
        (let st1 = (if codec = H264 \<and> payload ! 1 = AVCSequenceHeader
                    then SetAvcSequenceHeaderForPublisher (streamKey (session st)) payload st
                    else st)
         in Inr (snd (BroadcastVideo (streamKey (session st1)) payload timestamp st1))))"

definition onPlay :: "string \<Rightarrow> state \<Rightarrow> state" where
  "onPlay key st =
     (let st1 = st\<lparr>session := (session st)\<lparr>streamKey := key\<rparr>\<rparr> in
      if \<not> StreamExists key st1 then
        emit (MM_sendStatusMessage ''error'' ''NetStream.Play.StreamNotFound'' ''not_found'' [key]) st1
      else
        (let st2 = emit (MM_sendStatusMessage ''status'' ''NetStream.Play.Start''
                           ''Playing stream for live_user_<x>'' []) st1;
             st3 = (case GetAvcSequenceHeaderForPublisher key st2 of
                      Some avcSeqHeader \<Rightarrow> emit (MM_sendVideo avcSeqHeader 0) st2
                    | None \<Rightarrow> st2);
             st4 = (case GetAacSequenceHeaderForPublisher key st3 of
                      Some aacSeqHeader \<Rightarrow> emit (MM_sendAudio aacSeqHeader 0) st3
                    | None \<Rightarrow> st3);
             st5 = st4\<lparr>session := (session st4)\<lparr>isPlayer := True\<rparr>\<rparr>
         in snd (RegisterSubscriber key (id_sess (session st5)) st5)))"

text \<open>
  The function that \<open>Start\<close> defers: it runs when the message loop of the session ends,
  whether \<open>active\<close> has become false or reading the next message has failed.
\<close>

definition Start_deferred :: "state \<Rightarrow> state" where
  "Start_deferred st =
     (let st1 = (if isPlayer (session st)
                 then snd (DestroySubscriber (streamKey (session st)) (id_sess (session st)) st)
                 else st)
      in if isPublisher (session st1) then
           (let st2 = BroadcastEndOfStream (streamKey (session st1)) st1;
                st3 = snd (DestroyPublisher (streamKey (session st2)) st2)
            in case GetSessionGuard st3 of
                 None \<Rightarrow> st3
               | Some guard \<Rightarrow> emit (Guard_End (id_sess (session st3))) st3)
         else st1)"

section \<open>The chunk handler\<close>

record ChunkBasicHeader =
  FMT :: u8
  ChunkStreamID :: u32

record ChunkMessageHeader =
  Timestamp :: u32
  MessageLength :: u32
  MessageTypeID :: u8
  MessageStreamID :: u32

text \<open>The two headers are held by pointer: \<open>None\<close> is the nil pointer.\<close>

record ChunkHeader =
  BasicHeader :: "ChunkBasicHeader option"
  MessageHeader :: "ChunkMessageHeader option"
  ExtendedTimestamp :: u32
  ElapsedTime :: u32

text \<open>
  What has been written to the socket, one entry for each \<open>Write\<close> or \<open>WriteByte\<close>. The
  function that builds the Acknowledgement message is not among the sources: the bytes it
  returns for a sequence number are the entry \<open>generateAckMessage\<close> of that number.
\<close>

datatype written = Raw "u8 list" | generateAckMessage u32

text \<open>
  The reader is the sequence of bytes that the peer sends before it closes the connection;
  a read takes them from the front. The writer does not fail.
\<close>

record ChunkHandler =
  socketr :: "u8 list"
  socketw :: "written list"
  prevChunkHeader :: "u32 \<rightharpoonup> ChunkHeader"
  inChunkSize :: u32
  outChunkSize :: u32
  windowAckSize :: u32
  bytesReceived :: u32
  outBandwidth :: u32
  limit :: u8
  ackSent :: bool

definition NewChunkHandler :: "u8 list \<Rightarrow> ChunkHandler" where
  "NewChunkHandler reader =
     \<lparr>socketr = reader, socketw = [], prevChunkHeader = Map.empty,
      inChunkSize = DefaultMaximumChunkSize, outChunkSize = DefaultMaximumChunkSize,
      windowAckSize = 0, bytesReceived = 0, outBandwidth = 0, limit = 0, ackSent = False\<rparr>"

subsection \<open>Reading from the socket\<close>

text \<open>
  \<open>io.ReadFull\<close> into a buffer of \<open>n\<close> bytes: the bytes read and the rest of the input, \<open>EOF\<close>
  if the input holds no byte and \<open>ErrUnexpectedEOF\<close> if it holds fewer than \<open>n\<close>.
\<close>

definition ReadFull :: "nat \<Rightarrow> u8 list \<Rightarrow> error + (u8 list \<times> u8 list)" where
  "ReadFull n r =
     (if n \<le> length r then Inr (take n r, drop n r)
      else if r = [] then Inl EOF else Inl ErrUnexpectedEOF)"

text \<open>
  Package \<open>encoding/binary\<close>. The callers pass slices of at least two and four bytes.
\<close>

definition BigEndian_Uint16 :: "u8 list \<Rightarrow> u16" where
  "BigEndian_Uint16 b = push_bit 8 (ucast (b ! 0)) OR ucast (b ! 1)"

definition BigEndian_Uint32 :: "u8 list \<Rightarrow> u32" where
  "BigEndian_Uint32 b =
     push_bit 24 (ucast (b ! 0)) OR push_bit 16 (ucast (b ! 1))
       OR push_bit 8 (ucast (b ! 2)) OR ucast (b ! 3)"

definition LittleEndian_Uint32 :: "u8 list \<Rightarrow> u32" where
  "LittleEndian_Uint32 b =
     ucast (b ! 0) OR push_bit 8 (ucast (b ! 1))
       OR push_bit 16 (ucast (b ! 2)) OR push_bit 24 (ucast (b ! 3))"

text \<open>
  The index expression \<open>prevChunkHeader[csid]\<close>: the zero header, with both pointers nil,
  when the map has no entry.
\<close>

definition zeroChunkHeader :: ChunkHeader where
  "zeroChunkHeader =
     \<lparr>BasicHeader = None, MessageHeader = None, ExtendedTimestamp = 0, ElapsedTime = 0\<rparr>"

definition prev :: "ChunkHandler \<Rightarrow> u32 \<Rightarrow> ChunkHeader" where
  "prev ch csid = (case prevChunkHeader ch csid of None \<Rightarrow> zeroChunkHeader | Some h \<Rightarrow> h)"

definition readBasicHeader :: "ChunkHandler \<Rightarrow> error + (ChunkBasicHeader \<times> ChunkHandler)" where
  "readBasicHeader ch =
     (case socketr ch of
        [] \<Rightarrow> Inl EOF
      | b # r \<Rightarrow>
          (let fmt = drop_bit 6 b; csid = b AND 0x3F in
           if csid = 0 then
             (case r of
                [] \<Rightarrow> Inl EOF
              | i # r' \<Rightarrow> Inr (\<lparr>FMT = fmt, ChunkStreamID = ucast i + 64\<rparr>, ch\<lparr>socketr := r'\<rparr>))
           else if csid = 1 then
             (case ReadFull 2 r of
                Inl err \<Rightarrow> Inl err
              | Inr (ident, r') \<Rightarrow>
                  Inr (\<lparr>FMT = fmt, ChunkStreamID = ucast (BigEndian_Uint16 ident) + 64\<rparr>,
                       ch\<lparr>socketr := r', bytesReceived := bytesReceived ch + 2\<rparr>))
           else Inr (\<lparr>FMT = fmt, ChunkStreamID = ucast csid\<rparr>, ch\<lparr>socketr := r\<rparr>)))"

definition readMessageHeader ::
  "ChunkBasicHeader \<Rightarrow> ChunkHandler \<Rightarrow> error + (ChunkMessageHeader \<times> ChunkHandler)" where
  "readMessageHeader bh ch =
     (let csid = ChunkStreamID bh in
      if FMT bh = ChunkType0 then
        (case ReadFull 11 (socketr ch) of
           Inl err \<Rightarrow> Inl err
         | Inr (messageHeader, r) \<Rightarrow>
             Inr (\<lparr>Timestamp = BigEndian_Uint32 (0 # take 3 messageHeader),
                   MessageLength = BigEndian_Uint32 (0 # take 3 (drop 3 messageHeader)),
                   MessageTypeID = messageHeader ! 6,
                   MessageStreamID = LittleEndian_Uint32 (drop 7 messageHeader)\<rparr>,
                  ch\<lparr>socketr := r\<rparr>))
      else if FMT bh = ChunkType1 then
        (case ReadFull 7 (socketr ch) of
           Inl err \<Rightarrow> Inl err
         | Inr (messageHeader, r) \<Rightarrow>
             (case MessageHeader (prev ch csid) of
                None \<Rightarrow> Inl PanicNilPointer
              | Some pmh \<Rightarrow>
                  Inr (\<lparr>Timestamp = BigEndian_Uint32 (0 # take 3 messageHeader),
                        MessageLength = BigEndian_Uint32 (0 # take 3 (drop 3 messageHeader)),
                        MessageTypeID = messageHeader ! 6,
                        MessageStreamID = MessageStreamID pmh\<rparr>,
                       ch\<lparr>socketr := r\<rparr>)))
      else if FMT bh = ChunkType2 then
        (case ReadFull 3 (socketr ch) of
           Inl err \<Rightarrow> Inl err
         | Inr (messageHeader, r) \<Rightarrow>
             (case MessageHeader (prev ch csid) of
                None \<Rightarrow> Inl PanicNilPointer
              | Some pmh \<Rightarrow>
                  Inr (\<lparr>Timestamp = BigEndian_Uint32 (0 # take 3 messageHeader),
                        MessageLength = MessageLength pmh,
                        MessageTypeID = MessageTypeID pmh,
                        MessageStreamID = MessageStreamID pmh\<rparr>,
                       ch\<lparr>socketr := r\<rparr>)))
      else if FMT bh = ChunkType3 then
        (case MessageHeader (prev ch csid) of
           None \<Rightarrow> Inl PanicNilPointer
         | Some pmh \<Rightarrow>
             Inr (\<lparr>Timestamp = 0,
                   MessageLength = MessageLength pmh,
                   MessageTypeID = MessageTypeID pmh,
                   MessageStreamID = MessageStreamID pmh\<rparr>,
                  ch))
      else Inl UnknownChunkType)"

definition readExtendedTimestamp :: "ChunkHandler \<Rightarrow> error + (u32 \<times> ChunkHandler)" where
  "readExtendedTimestamp ch =
     (case ReadFull 4 (socketr ch) of
        Inl err \<Rightarrow> Inl err
      | Inr (extendedTimestamp, r) \<Rightarrow> Inr (BigEndian_Uint32 extendedTimestamp, ch\<lparr>socketr := r\<rparr>))"

definition ReadChunkHeader :: "ChunkHandler \<Rightarrow> error + (ChunkHeader \<times> ChunkHandler)" where
  "ReadChunkHeader ch0 =
     (case readBasicHeader ch0 of
        Inl err \<Rightarrow> Inl err
      | Inr (bh, ch1) \<Rightarrow>
          (case readMessageHeader bh ch1 of
             Inl err \<Rightarrow> Inl err
           | Inr (mh, ch2) \<Rightarrow>
               (let isExtendedTimestamp = (Timestamp mh = 0xFFFFFF) in
                case (if isExtendedTimestamp then readExtendedTimestamp ch2 else Inr (0, ch2)) of
                  Inl err \<Rightarrow> Inl err
                | Inr (ext, ch3) \<Rightarrow>
                    (let csid = ChunkStreamID bh;
                         elapsed =
                           (if FMT bh = ChunkType0 then
                              (if isExtendedTimestamp then ext else Timestamp mh)
                            else
                              (if isExtendedTimestamp then ElapsedTime (prev ch3 csid) + ext
                               else ElapsedTime (prev ch3 csid) + Timestamp mh));
                         h = \<lparr>BasicHeader = Some bh, MessageHeader = Some mh,
                              ExtendedTimestamp = ext, ElapsedTime = elapsed\<rparr>
                     in Inr (h, ch3\<lparr>prevChunkHeader := (prevChunkHeader ch3)(csid \<mapsto> h)\<rparr>)))))"

text \<open>
  The loop of \<open>assembleMessage\<close>. The buffer \<open>payload\<close> of the source has the length of the
  message from the start and is filled from the left; \<open>acc\<close> is the part filled so far,
  whose length is \<open>bytesRead\<close>. The sum \<open>bytesRead + inChunkSize\<close> is a \<open>uint32\<close>: where it
  wraps around below \<open>bytesRead\<close> the slice expression panics. Every round reads a chunk
  header, which takes at least one byte from the input; an error that \<open>ReadChunkHeader\<close>
  returns is wrapped in a new error, a panic inside it passes through.
\<close>

function assembleLoop ::
  "u32 \<Rightarrow> u32 \<Rightarrow> u8 list \<Rightarrow> ChunkHandler \<Rightarrow> error + (u8 list \<times> ChunkHandler)" where
  "assembleLoop messageLength bytesRead acc ch =
     (if bytesRead < messageLength then
        (case ReadChunkHeader ch of
           Inl err \<Rightarrow> Inl (if isPanic err then err else AssembleError err)
         | Inr (h, ch1) \<Rightarrow>
             (if bytesRead + inChunkSize ch1 < messageLength then
                (if bytesRead + inChunkSize ch1 < bytesRead then Inl PanicSliceBounds
                 else
                   (case ReadFull (unat (inChunkSize ch1)) (socketr ch1) of
                      Inl err \<Rightarrow> Inl err
                    | Inr (bs, r) \<Rightarrow>
                        assembleLoop messageLength (bytesRead + inChunkSize ch1) (acc @ bs)
                          (ch1\<lparr>socketr := r\<rparr>)))
              else
                (let remainingBytes = messageLength - bytesRead in
                 case ReadFull (unat remainingBytes) (socketr ch1) of
                   Inl err \<Rightarrow> Inl err
                 | Inr (bs, r) \<Rightarrow>
                     assembleLoop messageLength (bytesRead + remainingBytes) (acc @ bs)
                       (ch1\<lparr>socketr := r\<rparr>))))
      else Inr (acc, ch))"
  by pat_completeness auto
termination
proof -
  have full: "length r' \<le> length r" if "ReadFull n r = Inr (bs, r')" for n r bs r'
    using that by (auto simp: ReadFull_def split: if_splits)
  have basic: "length (socketr ch1) < length (socketr ch)"
    if "readBasicHeader ch = Inr (bh, ch1)" for ch bh ch1
    using that
    by (auto simp: readBasicHeader_def Let_def ReadFull_def split: list.splits if_splits sum.splits)
  have msg: "length (socketr ch1) \<le> length (socketr ch)"
    if "readMessageHeader bh ch = Inr (mh, ch1)" for ch bh mh ch1
    using that
    by (auto simp: readMessageHeader_def Let_def ReadFull_def split: if_splits option.splits)
  have ext: "length (socketr ch1) \<le> length (socketr ch)"
    if "readExtendedTimestamp ch = Inr (e, ch1)" for ch e ch1
    using that by (auto simp: readExtendedTimestamp_def ReadFull_def split: if_splits)
  have hdr: "length (socketr ch1) < length (socketr ch)"
    if "ReadChunkHeader ch = Inr (h, ch1)" for ch h ch1
    using that unfolding ReadChunkHeader_def Let_def
    by (simp split: sum.splits prod.splits if_splits) (auto dest!: basic msg ext)
  show ?thesis
    by (relation "measure (\<lambda>(messageLength, bytesRead, acc, ch). length (socketr ch))")
       (auto dest!: hdr full)
qed

text \<open>
  \<open>assembleMessage\<close> first reads the data of the chunk whose header has been read already:
  the slice \<open>payload[:inChunkSize]\<close> panics when the chunk size exceeds the message length.
\<close>

definition assembleMessage :: "u32 \<Rightarrow> ChunkHandler \<Rightarrow> error + (u8 list \<times> ChunkHandler)" where
  "assembleMessage messageLength ch =
     (if messageLength < inChunkSize ch then Inl PanicSliceBounds
      else
        (case ReadFull (unat (inChunkSize ch)) (socketr ch) of
           Inl err \<Rightarrow> Inl err
         | Inr (bs, r) \<Rightarrow> assembleLoop messageLength (inChunkSize ch) bs (ch\<lparr>socketr := r\<rparr>)))"

text \<open>The header passed in has been returned by \<open>ReadChunkHeader\<close>; a nil message header panics.\<close>

definition ReadChunkData :: "ChunkHeader \<Rightarrow> ChunkHandler \<Rightarrow> error + (u8 list \<times> ChunkHandler)" where
  "ReadChunkData header ch =
     (case MessageHeader header of
        None \<Rightarrow> Inl PanicNilPointer
      | Some mh \<Rightarrow>
          (let messageLength = MessageLength mh in
           if messageLength > inChunkSize ch then assembleMessage messageLength ch
           else
             (case ReadFull (unat messageLength) (socketr ch) of
                Inl err \<Rightarrow> Inl err
              | Inr (payload, r) \<Rightarrow> Inr (payload, ch\<lparr>socketr := r\<rparr>))))"

subsection \<open>Acknowledgements and control messages\<close>

definition sendAck :: "ChunkHandler \<Rightarrow> ChunkHandler" where
  "sendAck ch =
     ch\<lparr>socketw := socketw ch @ [generateAckMessage (bytesReceived ch)],
        bytesReceived := 0, ackSent := True\<rparr>"

definition updateBytesReceived :: "u32 \<Rightarrow> ChunkHandler \<Rightarrow> ChunkHandler" where
  "updateBytesReceived i ch =
     (let ch1 = ch\<lparr>bytesReceived := bytesReceived ch + i\<rparr> in
      if bytesReceived ch1 \<ge> windowAckSize ch1 then sendAck ch1 else ch1)"

definition SetChunkSize :: "u32 \<Rightarrow> ChunkHandler \<Rightarrow> ChunkHandler" where
  "SetChunkSize sz ch = ch\<lparr>inChunkSize := sz\<rparr>"

definition SetWindowAckSize :: "u32 \<Rightarrow> ChunkHandler \<Rightarrow> ChunkHandler" where
  "SetWindowAckSize sz ch =
     (let ch1 = (if \<not> ackSent ch then sendAck ch else ch) in ch1\<lparr>windowAckSize := sz\<rparr>)"

text \<open>The body of \<open>SetBandwidth\<close> holds comments only.\<close>

definition SetBandwidth :: "u32 \<Rightarrow> u8 \<Rightarrow> ChunkHandler \<Rightarrow> ChunkHandler" where
  "SetBandwidth sz limitType ch = ch"

subsection \<open>Writing a message\<close>

text \<open>
  The loop of \<open>send\<close>, on Go's \<open>int\<close>: the entries it writes after \<open>out\<close>. With a chunk size
  of 0 the loop writes empty slices for ever, so the result is an option and \<open>None\<close> stands
  for a loop that does not return.
\<close>

partial_function (option) sendLoop ::
  "u8 \<Rightarrow> nat \<Rightarrow> u8 list \<Rightarrow> nat \<Rightarrow> bool \<Rightarrow> written list \<Rightarrow> written list option" where
  "sendLoop chunk3Header chunkSize payload bytesWritten firstPayloadChunk out =
     (if bytesWritten < length payload then
        (let out1 = (if \<not> firstPayloadChunk then out @ [Raw [chunk3Header]] else out) in
         if bytesWritten + chunkSize < length payload then
           sendLoop chunk3Header chunkSize payload (bytesWritten + chunkSize) False
             (out1 @ [Raw (take chunkSize (drop bytesWritten payload))])
         else
           (let remainingBytes = length payload - bytesWritten in
            sendLoop chunk3Header chunkSize payload (bytesWritten + remainingBytes) False
              (out1 @ [Raw (take remainingBytes (drop bytesWritten payload))])))
      else Some out)"

definition send :: "u8 list \<Rightarrow> u8 list \<Rightarrow> ChunkHandler \<Rightarrow> (error + ChunkHandler) option" where
  "send header payload ch =
     (let w = socketw ch @ [Raw header] in
      if length payload > unat (outChunkSize ch) then
        (case header of
           [] \<Rightarrow> Some (Inl PanicIndexOutOfRange)
         | b # bs \<Rightarrow>
             (case sendLoop (push_bit 6 ChunkType3 OR (b AND 0x3F)) (unat (outChunkSize ch))
                     payload 0 True w of
                None \<Rightarrow> None
              | Some w' \<Rightarrow> Some (Inr (ch\<lparr>socketw := w'\<rparr>))))
      else Some (Inr (ch\<lparr>socketw := w @ [Raw payload]\<rparr>)))"

section \<open>Concrete sessions and handlers\<close>

text \<open>A fresh server-side session on a broadcaster for the application \<open>app\<close>.\<close>

definition st_connect :: state where
  "st_connect = \<lparr>session = NewSession ''s1'', bcast = NewBroadcaster ''app'' Map.empty, trace = []\<rparr>"

text \<open>
  A fresh session next to a stream \<open>abc\<close> that has a publisher, one subscriber and a cached
  AVC sequence header.
\<close>

definition entry_abc :: publisher_entry where
  "entry_abc = \<lparr>subscribers = [''s0''], aacSequenceHeader = None,
                 avcSequenceHeader = Some [0x17, 0x00, 0x01]\<rparr>"

definition st_abc :: state where
  "st_abc = \<lparr>session = NewSession ''s2'',
             bcast = NewBroadcaster ''app'' [''abc'' \<mapsto> entry_abc], trace = []\<rparr>"

text \<open>A fresh session on a broadcaster whose guard rejects the stream key \<open>blocked\<close>.\<close>

definition st_guarded :: state where
  "st_guarded = \<lparr>session = NewSession ''s3'',
                 bcast = \<lparr>appName = ''app'', ctx = Map.empty,
                          sessionGuard = Some (\<lambda>s. streamKey s \<noteq> ''blocked'')\<rparr>,
                 trace = []\<rparr>"

text \<open>
  A second session next to a stream \<open>live\<close> that already has its publisher, and the
  publishing session of that stream.
\<close>

definition entry_live :: publisher_entry where
  "entry_live = \<lparr>subscribers = [''viewer''], aacSequenceHeader = None, avcSequenceHeader = None\<rparr>"

definition st_live :: state where
  "st_live = \<lparr>session = NewSession ''second'',
              bcast = NewBroadcaster ''app'' [''live'' \<mapsto> entry_live], trace = []\<rparr>"

definition st_media :: state where
  "st_media = \<lparr>session = (NewSession ''pub'')\<lparr>streamKey := ''live'', isPublisher := True\<rparr>,
               bcast = NewBroadcaster ''app'' [''live'' \<mapsto> entry_live], trace = []\<rparr>"

text \<open>A chunk handler with a window of 100 bytes that has counted 60.\<close>

definition ch_window :: ChunkHandler where
  "ch_window = (NewChunkHandler [])\<lparr>windowAckSize := 100, bytesReceived := 60\<rparr>"

text \<open>
  A chunk handler that has received a Window-Ack-Size of 2 bytes, and has answered it with
  its first Acknowledgement, in front of a type-0 chunk header whose basic header has the
  3-byte form (chunk stream 320); the header as read.
\<close>

definition ch_window2 :: "u8 list \<Rightarrow> ChunkHandler" where
  "ch_window2 input = SetWindowAckSize 2 (NewChunkHandler input)"

definition bytes_csid320 :: "u8 list" where
  "bytes_csid320 =
     [0x01, 0x01, 0x00, 0x00, 0x00, 0x00, 0x00, 0x00, 0x00, 0x08, 0x01, 0x00, 0x00, 0x00]"

definition hdr_320 :: ChunkHeader where
  "hdr_320 =
     \<lparr>BasicHeader = Some \<lparr>FMT = 0, ChunkStreamID = 320\<rparr>,
      MessageHeader = Some \<lparr>Timestamp = 0, MessageLength = 0, MessageTypeID = 8,
                            MessageStreamID = 1\<rparr>,
      ExtendedTimestamp = 0, ElapsedTime = 0\<rparr>"

text \<open>
  A message of two bytes in a type-0 chunk on chunk stream 3 with timestamp 1000, followed
  on the same chunk stream by a type-3 chunk that starts the next message; the headers
  that \<open>ReadChunkHeader\<close> returns for the two chunks, and the handler after the first.
\<close>

definition bytes_type0_type3 :: "u8 list" where
  "bytes_type0_type3 =
     [0x03, 0x00, 0x03, 0xE8, 0x00, 0x00, 0x02, 0x08, 0x01, 0x00, 0x00, 0x00, 0xAF, 0x01,
      0xC3, 0xAF, 0x02]"

definition hdr_type0 :: ChunkHeader where
  "hdr_type0 =
     \<lparr>BasicHeader = Some \<lparr>FMT = 0, ChunkStreamID = 3\<rparr>,
      MessageHeader = Some \<lparr>Timestamp = 1000, MessageLength = 2, MessageTypeID = 8,
                            MessageStreamID = 1\<rparr>,
      ExtendedTimestamp = 0, ElapsedTime = 1000\<rparr>"

definition hdr_type3 :: ChunkHeader where
  "hdr_type3 =
     \<lparr>BasicHeader = Some \<lparr>FMT = 3, ChunkStreamID = 3\<rparr>,
      MessageHeader = Some \<lparr>Timestamp = 0, MessageLength = 2, MessageTypeID = 8,
                            MessageStreamID = 1\<rparr>,
      ExtendedTimestamp = 0, ElapsedTime = 1000\<rparr>"

definition ch_type0_read :: "u8 list \<Rightarrow> ChunkHandler" where
  "ch_type0_read input = (NewChunkHandler input)\<lparr>prevChunkHeader := [3 \<mapsto> hdr_type0]\<rparr>"

text \<open>
  Two messages of three bytes under a chunk size of 2, interleaved: the first chunk of
  message A (bytes A1 A2 A3) on chunk stream 3, the first chunk of message B (bytes B1 B2
  B3) on chunk stream 4, then the type-3 continuation chunks of A and of B. The header of
  A's first chunk and the handler after that header has been read.
\<close>

definition bytes_interleaved :: "u8 list" where
  "bytes_interleaved =
     [0x03, 0x00, 0x00, 0x00, 0x00, 0x00, 0x03, 0x09, 0x01, 0x00, 0x00, 0x00, 0xA1, 0xA2,
      0x04, 0x00, 0x00, 0x00, 0x00, 0x00, 0x03, 0x08, 0x01, 0x00, 0x00, 0x00, 0xB1, 0xB2,
      0xC3, 0xA3,
      0xC4, 0xB3]"

definition hdr_A :: ChunkHeader where
  "hdr_A =
     \<lparr>BasicHeader = Some \<lparr>FMT = 0, ChunkStreamID = 3\<rparr>,
      MessageHeader = Some \<lparr>Timestamp = 0, MessageLength = 3, MessageTypeID = 9,
                            MessageStreamID = 1\<rparr>,
      ExtendedTimestamp = 0, ElapsedTime = 0\<rparr>"

definition ch_A_read :: ChunkHandler where
  "ch_A_read = (SetChunkSize 2 (NewChunkHandler (drop 12 bytes_interleaved)))
                 \<lparr>prevChunkHeader := [3 \<mapsto> hdr_A]\<rparr>"

text \<open>
  The handler after the header of message A, in front of A's first two bytes and a type-3
  chunk on chunk stream 5, on which no chunk has been read before.
\<close>

definition ch_no_prev :: ChunkHandler where
  "ch_no_prev = (SetChunkSize 2 (NewChunkHandler [0xA1, 0xA2, 0xC5, 0xA3]))
                  \<lparr>prevChunkHeader := [3 \<mapsto> hdr_A]\<rparr>"

text \<open>
  A message of five bytes on chunk stream 3: the bytes of its type-0 chunk header, the
  header as read, a writer with an outgoing chunk size of 2, and a reader with an incoming
  chunk size of 2 that has just read the header.
\<close>

definition hdr_bytes5 :: "u8 list" where
  "hdr_bytes5 = [0x03, 0x00, 0x00, 0x00, 0x00, 0x00, 0x05, 0x09, 0x01, 0x00, 0x00, 0x00]"

definition hdr_5 :: ChunkHeader where
  "hdr_5 =
     \<lparr>BasicHeader = Some \<lparr>FMT = 0, ChunkStreamID = 3\<rparr>,
      MessageHeader = Some \<lparr>Timestamp = 0, MessageLength = 5, MessageTypeID = 9,
                            MessageStreamID = 1\<rparr>,
      ExtendedTimestamp = 0, ElapsedTime = 0\<rparr>"

definition ch_writer :: ChunkHandler where
  "ch_writer = (NewChunkHandler [])\<lparr>outChunkSize := 2\<rparr>"

definition ch_reader :: ChunkHandler where
  "ch_reader = (SetChunkSize 2 (NewChunkHandler []))\<lparr>prevChunkHeader := [3 \<mapsto> hdr_5]\<rparr>"

section \<open>Properties of the session handlers\<close>

lemma emit_simps:
  "trace (emit e st) = trace st @ [e]" "session (emit e st) = session st"
  "bcast (emit e st) = bcast st"
  by (simp_all add: emit_def)

text \<open>
  Claim C1, at the input where the code departs from it. The stream \<open>live\<close> has a
  registered publisher, so the store answers \<open>AlreadyExists\<close> to a second registration.
  \<open>onPublish\<close> drops that answer: the second session sends the status-level
  \<open>NetStream.Publish.Start\<close>, is marked as publisher and stays active; no error-level
  \<open>onStatus\<close> is sent and the session does not terminate.
\<close>

theorem onPublish_duplicate_counterexample:
  "ctx_RegisterPublisher (ctx (bcast st_live)) ''live'' = (Some AlreadyExists, ctx (bcast st_live))
   \<and> trace (onPublish ''live'' ''live'' st_live) =
       [MM_sendStatusMessage ''status'' ''NetStream.Publish.Start'' ''Publishing live_user_<x>'' [],
        Ctx_RegisterPublisher ''live'']
   \<and> active (session (onPublish ''live'' ''live'' st_live))
   \<and> isPublisher (session (onPublish ''live'' ''live'' st_live))"
  by (simp add: onPublish_def GetSessionGuard_def Let_def emit_simps RegisterPublisher_def
      ctx_RegisterPublisher_def st_live_def NewBroadcaster_def NewSession_def)

text \<open>
  The registration is the last statement of \<open>onPublish\<close> and its result is not looked at:
  whenever no session guard rejects the session, the handler sends
  \<open>NetStream.Publish.Start\<close>, marks the session as publisher and leaves \<open>active\<close> as it was,
  whether or not the key has a publisher.
\<close>

lemma onPublish_accepted:
  "(case sessionGuard (bcast st) of None \<Rightarrow> True
    | Some Check \<Rightarrow> Check ((session st)\<lparr>streamKey := key, publishingType := ptype\<rparr>)) \<Longrightarrow>
     trace (onPublish key ptype st) =
       trace st @ [MM_sendStatusMessage ''status'' ''NetStream.Publish.Start''
                     ''Publishing live_user_<x>'' [],
                   Ctx_RegisterPublisher key]
   \<and> isPublisher (session (onPublish key ptype st))
   \<and> active (session (onPublish key ptype st)) = active (session st)
   \<and> (ctx (bcast st) key \<noteq> None \<longrightarrow> bcast (onPublish key ptype st) = bcast st)"
  by (auto simp: onPublish_def GetSessionGuard_def Let_def emit_simps RegisterPublisher_def
      ctx_RegisterPublisher_def split: option.splits)

text \<open>
  The first publisher does not stay unaffected. The second session carries the stream key
  of the first and the publisher mark, so when its message loop ends the function deferred
  by \<open>Start\<close> sends end-of-stream to the subscribers of the first publisher and destroys
  the entry of the stream.
\<close>

lemma duplicate_teardown_destroys_stream:
  "trace (Start_deferred (onPublish ''live'' ''live'' st_live)) =
     [MM_sendStatusMessage ''status'' ''NetStream.Publish.Start'' ''Publishing live_user_<x>'' [],
      Ctx_RegisterPublisher ''live'',
      Sub_SendEndOfStream ''viewer'',
      Ctx_DestroyPublisher ''live'']
   \<and> ctx (bcast st_live) ''live'' = Some entry_live
   \<and> ctx (bcast (Start_deferred (onPublish ''live'' ''live'' st_live))) ''live'' = None"
  by (simp add: Start_deferred_def onPublish_def GetSessionGuard_def Let_def emit_simps
      RegisterPublisher_def ctx_RegisterPublisher_def DestroyPublisher_def
      ctx_DestroyPublisher_def BroadcastEndOfStream_def ctx_GetSubscribersForStream_def
      st_live_def entry_live_def NewBroadcaster_def NewSession_def)

text \<open>
  Claim C4. When the \<open>app\<close> of a connect command is the application name of the
  broadcaster, \<open>onConnect\<close> makes exactly five calls on the message manager, in this order:
  Window-Ack-Size, Set-Peer-Bandwidth with the dynamic limit, StreamBegin for stream 0,
  Set-Chunk-Size with the configured size, and the connect success reply on the chunk
  stream of the command; the session stays as active as it was. When the names differ
  nothing is sent and \<open>active\<close> becomes false, which ends the session's message loop.
\<close>

theorem onConnect_sequence:
  "(fst (GetString data ''app'') = appName (bcast st) \<longrightarrow>
      trace (onConnect csID data st) =
        trace st @ [MM_sendWindowAckSize DefaultClientWindowSize,
                    MM_sendSetPeerBandWidth DefaultClientWindowSize LimitDynamic,
                    MM_sendBeginStream 0,
                    MM_sendSetChunkSize DefaultChunkSize,
                    MM_sendConnectSuccess csID]
      \<and> active (session (onConnect csID data st)) = active (session st))
   \<and> (fst (GetString data ''app'') \<noteq> appName (bcast st) \<longrightarrow>
        trace (onConnect csID data st) = trace st
      \<and> \<not> active (session (onConnect csID data st)))"
  by (simp add: onConnect_def storeMetadata_def AppName_def Let_def emit_simps
      DefaultPublishStream_def)

theorem onConnect_sequence_witness:
  "trace (onConnect 3 [(''App'', AnyString ''app'')] st_connect) =
     [MM_sendWindowAckSize 2500000, MM_sendSetPeerBandWidth 2500000 2, MM_sendBeginStream 0,
      MM_sendSetChunkSize 4096, MM_sendConnectSuccess 3]
   \<and> active (session (onConnect 3 [(''App'', AnyString ''app'')] st_connect))
   \<and> trace (onConnect 3 [(''app'', AnyString ''other'')] st_connect) = []
   \<and> \<not> active (session (onConnect 3 [(''app'', AnyString ''other'')] st_connect))"
  using onConnect_sequence [of "[(''App'', AnyString ''app'')]" st_connect 3]
        onConnect_sequence [of "[(''app'', AnyString ''other'')]" st_connect 3]
  by (simp add: GetString_def EqualFold_def lower_def isLongS_def isKelvin_def char_of_def bit_0
      st_connect_def NewSession_def NewBroadcaster_def DefaultClientWindowSize_def
      LimitDynamic_def DefaultChunkSize_def)

text \<open>
  Claim C5. When the broadcaster has a session guard and its \<open>Check\<close> rejects the session
  (which by then carries the stream key and the publishing type of the command),
  \<open>onPublish\<close> sends the status message \<open>NetStream.Play.Stop\<close> and nothing else, sets
  \<open>active\<close> to false, leaves \<open>isPublisher\<close> as it was and does not touch the broadcaster:
  the key is not registered.
\<close>

theorem onPublish_guard_denied:
  "sessionGuard (bcast st) = Some Check \<Longrightarrow>
   \<not> Check ((session st)\<lparr>streamKey := key, publishingType := ptype\<rparr>) \<Longrightarrow>
     trace (onPublish key ptype st) =
       trace st @ [MM_sendStatusMessage ''status'' ''NetStream.Play.Stop''
                     ''Stopped playing stream.'' []]
   \<and> \<not> active (session (onPublish key ptype st))
   \<and> isPublisher (session (onPublish key ptype st)) = isPublisher (session st)
   \<and> bcast (onPublish key ptype st) = bcast st"
  by (simp add: onPublish_def GetSessionGuard_def SendEndOfStream_def Let_def emit_simps)

theorem onPublish_guard_denied_witness:
  "trace (onPublish ''blocked'' ''live'' st_guarded) =
     [MM_sendStatusMessage ''status'' ''NetStream.Play.Stop'' ''Stopped playing stream.'' []]
   \<and> \<not> active (session (onPublish ''blocked'' ''live'' st_guarded))
   \<and> \<not> isPublisher (session (onPublish ''blocked'' ''live'' st_guarded))
   \<and> ctx (bcast (onPublish ''blocked'' ''live'' st_guarded)) ''blocked'' = None"
proof -
  have g: "sessionGuard (bcast st_guarded) = Some (\<lambda>s. streamKey s \<noteq> ''blocked'')"
    by (simp add: st_guarded_def)
  have d: "\<not> (\<lambda>s. streamKey s \<noteq> ''blocked'')
               ((session st_guarded)\<lparr>streamKey := ''blocked'', publishingType := ''live''\<rparr>)"
    by simp
  from onPublish_guard_denied [OF g d] show ?thesis
    by (simp add: st_guarded_def NewSession_def)
qed

text \<open>
  Claim C6. When the stream key of a play command has no publisher entry, \<open>onPlay\<close> sends
  one \<open>onStatus\<close> with level \<open>error\<close> and code \<open>NetStream.Play.StreamNotFound\<close> and nothing
  else; the session keeps its \<open>active\<close> flag, is not marked as player, and the broadcaster
  is untouched, so no subscriber is registered.
\<close>

theorem onPlay_stream_not_found:
  "ctx (bcast st) key = None \<Longrightarrow>
     trace (onPlay key st) =
       trace st @ [MM_sendStatusMessage ''error'' ''NetStream.Play.StreamNotFound''
                     ''not_found'' [key]]
   \<and> active (session (onPlay key st)) = active (session st)
   \<and> isPlayer (session (onPlay key st)) = isPlayer (session st)
   \<and> bcast (onPlay key st) = bcast st"
  by (simp add: onPlay_def StreamExists_def ctx_StreamExists_def Let_def emit_simps)

theorem onPlay_stream_not_found_witness:
  "trace (onPlay ''missing'' st_abc) =
     [MM_sendStatusMessage ''error'' ''NetStream.Play.StreamNotFound'' ''not_found'' [''missing'']]
   \<and> active (session (onPlay ''missing'' st_abc))
   \<and> \<not> isPlayer (session (onPlay ''missing'' st_abc))
   \<and> subscribers (the (ctx (bcast (onPlay ''missing'' st_abc)) ''abc'')) = [''s0'']"
  using onPlay_stream_not_found [of st_abc "''missing''"]
  by (simp add: st_abc_def NewSession_def NewBroadcaster_def entry_abc_def)

text \<open>
  Claim C7. When the stream key of a play command has a publisher entry, \<open>onPlay\<close> sends
  the \<open>onStatus\<close> \<open>NetStream.Play.Start\<close>, then the cached AVC sequence header, if there is
  one, as a video message with timestamp 0, then the cached AAC sequence header, if there
  is one, as an audio message with timestamp 0, and only then registers the session as a
  subscriber of the key; the session is marked as player.
\<close>

theorem onPlay_stream_exists:
  "ctx (bcast st) key = Some e \<Longrightarrow>
     trace (onPlay key st) =
       trace st
       @ [MM_sendStatusMessage ''status'' ''NetStream.Play.Start''
            ''Playing stream for live_user_<x>'' []]
       @ (case avcSequenceHeader e of None \<Rightarrow> [] | Some avc \<Rightarrow> [MM_sendVideo avc 0])
       @ (case aacSequenceHeader e of None \<Rightarrow> [] | Some aac \<Rightarrow> [MM_sendAudio aac 0])
       @ [Ctx_RegisterSubscriber key (id_sess (session st))]
   \<and> isPlayer (session (onPlay key st))
   \<and> active (session (onPlay key st)) = active (session st)
   \<and> ctx (bcast (onPlay key st)) key =
       Some (e\<lparr>subscribers := removeAll (id_sess (session st)) (subscribers e)
                               @ [id_sess (session st)]\<rparr>)"
  by (simp add: onPlay_def StreamExists_def ctx_StreamExists_def Let_def emit_simps
      GetAvcSequenceHeaderForPublisher_def GetAacSequenceHeaderForPublisher_def
      ctx_GetAvcSequenceHeaderForPublisher_def ctx_GetAacSequenceHeaderForPublisher_def
      RegisterSubscriber_def ctx_RegisterSubscriber_def split: option.splits)

theorem onPlay_stream_exists_witness:
  "trace (onPlay ''abc'' st_abc) =
     [MM_sendStatusMessage ''status'' ''NetStream.Play.Start''
        ''Playing stream for live_user_<x>'' [],
      MM_sendVideo [0x17, 0x00, 0x01] 0,
      Ctx_RegisterSubscriber ''abc'' ''s2'']
   \<and> isPlayer (session (onPlay ''abc'' st_abc))
   \<and> subscribers (the (ctx (bcast (onPlay ''abc'' st_abc)) ''abc'')) = [''s0'', ''s2'']"
  using onPlay_stream_exists [of st_abc "''abc''" entry_abc]
  by (simp add: st_abc_def NewSession_def NewBroadcaster_def entry_abc_def)

text \<open>
  Claim C10. On a server-side session without callbacks, \<open>onAudioMessage\<close> with the format
  AAC and \<open>onVideoMessage\<close> with the codec H.264 read \<open>payload[1]\<close> before anything is cached
  or broadcast: the handler panics with an index out of range exactly when the payload has
  fewer than two bytes, and returns exactly when it has at least two.
\<close>

theorem media_payload_index:
  "\<not> OnAudio (session st) \<Longrightarrow> \<not> OnVideo (session st) \<Longrightarrow> \<not> isClient (session st) \<Longrightarrow>
     (onAudioMessage AAC payload timestamp st = Inl PanicIndexOutOfRange) = (length payload < 2)
   \<and> (\<exists>st'. onAudioMessage AAC payload timestamp st = Inr st') = (2 \<le> length payload)
   \<and> (onVideoMessage H264 payload timestamp st = Inl PanicIndexOutOfRange) = (length payload < 2)
   \<and> (\<exists>st'. onVideoMessage H264 payload timestamp st = Inr st') = (2 \<le> length payload)"
  by (auto simp: onAudioMessage_def onVideoMessage_def Let_def)

theorem media_payload_index_witness:
  "onAudioMessage AAC [0xAF] 0 st_media = Inl PanicIndexOutOfRange
   \<and> onVideoMessage H264 [] 0 st_media = Inl PanicIndexOutOfRange
   \<and> onAudioMessage AAC [0xAF, 0x01] 0 st_media \<noteq> Inl PanicIndexOutOfRange
   \<and> onVideoMessage H264 [0x17, 0x00] 0 st_media \<noteq> Inl PanicIndexOutOfRange"
proof -
  have s: "\<not> OnAudio (session st_media)" "\<not> OnVideo (session st_media)"
    "\<not> isClient (session st_media)"
    by (simp_all add: st_media_def NewSession_def)
  from media_payload_index [OF s, of "[0xAF]" 0] media_payload_index [OF s, of "[]" 0]
    media_payload_index [OF s, of "[0xAF, 0x01]" 0] media_payload_index [OF s, of "[0x17, 0x00]" 0]
  show ?thesis by simp
qed

section \<open>Properties of the chunk handler\<close>

text \<open>
  Claim C8, at the input where the code departs from it. The handler has a window of 2
  bytes and a counter of 0. Reading a chunk header whose basic header has the 3-byte form
  adds 2 to the counter, which thereby reaches the window size, but the read does not
  compare the two: no Acknowledgement is written and the counter keeps the value 2. The
  same update made through \<open>updateBytesReceived\<close> writes the Acknowledgement carrying the
  count 2 and resets the counter.
\<close>

theorem basic_header_read_without_ack:
  "ReadChunkHeader (ch_window2 bytes_csid320)
     = Inr (hdr_320, (ch_window2 [])\<lparr>prevChunkHeader := [320 \<mapsto> hdr_320], bytesReceived := 2\<rparr>)
   \<and> windowAckSize (ch_window2 []) = 2
   \<and> socketw (ch_window2 []) = [generateAckMessage 0]
   \<and> bytesReceived (ch_window2 []) = 0
   \<and> updateBytesReceived 2 (ch_window2 [])
     = (ch_window2 [])\<lparr>socketw := [generateAckMessage 0, generateAckMessage 2]\<rparr>"
  by (simp add: ReadChunkHeader_def readBasicHeader_def readMessageHeader_def
      ReadFull_def NewChunkHandler_def SetWindowAckSize_def sendAck_def updateBytesReceived_def
      ch_window2_def bytes_csid320_def hdr_320_def Let_def ChunkType0_def
      BigEndian_Uint16_def BigEndian_Uint32_def LittleEndian_Uint32_def prev_def
      zeroChunkHeader_def)

text \<open>
  \<open>updateBytesReceived\<close> itself compares the new count with the window size. When the
  count reaches or exceeds it, exactly one Acknowledgement carrying that count is written,
  the counter is reset to 0 and \<open>ackSent\<close> is set; below the window size the count is
  stored and nothing is written. When the count reaches the window size exactly, a
  following update by fewer bytes than the window writes no second Acknowledgement.
\<close>

theorem updateBytesReceived_ack:
  "(windowAckSize ch \<le> bytesReceived ch + i \<longrightarrow>
      updateBytesReceived i ch =
        ch\<lparr>socketw := socketw ch @ [generateAckMessage (bytesReceived ch + i)],
           bytesReceived := 0, ackSent := True\<rparr>)
   \<and> (bytesReceived ch + i < windowAckSize ch \<longrightarrow>
        updateBytesReceived i ch = ch\<lparr>bytesReceived := bytesReceived ch + i\<rparr>)
   \<and> (bytesReceived ch + i = windowAckSize ch \<and> j < windowAckSize ch \<longrightarrow>
        socketw (updateBytesReceived j (updateBytesReceived i ch)) =
          socketw ch @ [generateAckMessage (windowAckSize ch)]
      \<and> bytesReceived (updateBytesReceived j (updateBytesReceived i ch)) = j)"
  by (auto simp: updateBytesReceived_def sendAck_def Let_def)

theorem updateBytesReceived_ack_witness:
  "socketw (updateBytesReceived 40 ch_window) = [generateAckMessage 100]
   \<and> bytesReceived (updateBytesReceived 40 ch_window) = 0
   \<and> ackSent (updateBytesReceived 40 ch_window)
   \<and> socketw (updateBytesReceived 39 ch_window) = []
   \<and> bytesReceived (updateBytesReceived 39 ch_window) = 99
   \<and> socketw (updateBytesReceived 1 (updateBytesReceived 40 ch_window)) = [generateAckMessage 100]"
proof -
  note unfold = ch_window_def NewChunkHandler_def
  have a: "socketw (updateBytesReceived 40 ch_window) = [generateAckMessage 100]"
    "bytesReceived (updateBytesReceived 40 ch_window) = 0"
    "ackSent (updateBytesReceived 40 ch_window)"
    using updateBytesReceived_ack [of ch_window 40 1] by (simp_all add: unfold)
  have b: "socketw (updateBytesReceived 39 ch_window) = []"
    "bytesReceived (updateBytesReceived 39 ch_window) = 99"
    using updateBytesReceived_ack [of ch_window 39 0] by (simp_all add: unfold)
  have c: "socketw (updateBytesReceived 1 (updateBytesReceived 40 ch_window)) =
             [generateAckMessage 100]"
    using updateBytesReceived_ack [of ch_window 40 1, THEN conjunct2, THEN conjunct2]
    by (simp add: unfold)
  show ?thesis by (simp add: a b c)
qed

text \<open>
  Claim C9, as stated, fails. A Set-Peer-Bandwidth of 5000000 bytes with the soft limit
  leaves \<open>outBandwidth\<close> and \<open>limit\<close> of a new chunk handler at their initial value 0.
\<close>

theorem SetBandwidth_counterexample:
  "outBandwidth (SetBandwidth 5000000 LimitSoft (NewChunkHandler [])) = 0
   \<and> limit (SetBandwidth 5000000 LimitSoft (NewChunkHandler [])) = 0
   \<and> (0 :: u32) \<noteq> 5000000 \<and> (0 :: u8) \<noteq> LimitSoft"
  by (simp add: SetBandwidth_def NewChunkHandler_def LimitSoft_def)

text \<open>
  Claim C9, amended. When a Set-Peer-Bandwidth message is received the session passes size
  and limit type on to the message manager and changes nothing of its own, and the chunk
  handler's \<open>SetBandwidth\<close> leaves the handler as it was: \<open>outBandwidth\<close> and \<open>limit\<close> keep
  their values and nothing is written.
\<close>

theorem SetBandwidth_unchanged:
  "SetBandwidth sz limitType ch = ch
   \<and> outBandwidth (SetBandwidth sz limitType ch) = outBandwidth ch
   \<and> limit (SetBandwidth sz limitType ch) = limit ch
   \<and> socketw (SetBandwidth sz limitType ch) = socketw ch
   \<and> session (onSetBandwidth sz limitType st) = session st
   \<and> bcast (onSetBandwidth sz limitType st) = bcast st
   \<and> trace (onSetBandwidth sz limitType st) = trace st @ [MM_SetBandwidth sz limitType]"
  by (simp add: SetBandwidth_def onSetBandwidth_def emit_simps)

subsection \<open>Type-3 chunks and the reassembly of a message\<close>

lemma type3_byte:
  fixes b :: u8
  shows "drop_bit 6 (push_bit 6 ChunkType3 OR (b AND 0x3F)) = ChunkType3"
    and "(push_bit 6 ChunkType3 OR (b AND 0x3F)) AND 0x3F = b AND 0x3F"
proof -
  have m: "(0x3F :: u8) = mask 6" "ChunkType3 = mask 2"
    by (simp_all add: mask_eq_exp_minus_1 ChunkType3_def)
  show "drop_bit 6 (push_bit 6 ChunkType3 OR (b AND 0x3F)) = ChunkType3"
    unfolding m by (rule bit_word_eqI) (auto simp add: bit_simps)
  show "(push_bit 6 ChunkType3 OR (b AND 0x3F)) AND 0x3F = b AND 0x3F"
    unfolding m by (rule bit_word_eqI) (auto simp add: bit_simps)
qed

lemma u32_of_nat:
  fixes a b :: nat
  assumes "a < 2 ^ 32" "b < 2 ^ 32"
  shows "((of_nat a :: u32) < of_nat b) = (a < b)"
    and "unat (of_nat a :: u32) = a"
  using assms by (simp_all add: of_nat_word_less_iff take_bit_nat_eq_self unat_of_nat)

lemma ReadChunkHeader_type3:
  assumes "socketr ch = b # r" "drop_bit 6 b = ChunkType3" "b AND 0x3F \<noteq> 0" "b AND 0x3F \<noteq> 1"
    and "prevChunkHeader ch (ucast (b AND 0x3F)) = Some hp" "MessageHeader hp = Some pmh"
  shows "ReadChunkHeader ch =
           Inr (\<lparr>BasicHeader = Some \<lparr>FMT = ChunkType3, ChunkStreamID = ucast (b AND 0x3F)\<rparr>,
                 MessageHeader = Some \<lparr>Timestamp = 0, MessageLength = MessageLength pmh,
                                       MessageTypeID = MessageTypeID pmh,
                                       MessageStreamID = MessageStreamID pmh\<rparr>,
                 ExtendedTimestamp = 0, ElapsedTime = ElapsedTime hp\<rparr>,
                ch\<lparr>socketr := r,
                   prevChunkHeader := (prevChunkHeader ch)(ucast (b AND 0x3F) \<mapsto>
                     \<lparr>BasicHeader = Some \<lparr>FMT = ChunkType3, ChunkStreamID = ucast (b AND 0x3F)\<rparr>,
                      MessageHeader = Some \<lparr>Timestamp = 0, MessageLength = MessageLength pmh,
                                            MessageTypeID = MessageTypeID pmh,
                                            MessageStreamID = MessageStreamID pmh\<rparr>,
                      ExtendedTimestamp = 0, ElapsedTime = ElapsedTime hp\<rparr>)\<rparr>)"
proof -
  have t: "ChunkType3 \<noteq> ChunkType0" "ChunkType3 \<noteq> ChunkType1" "ChunkType3 \<noteq> ChunkType2"
    by (simp_all add: ChunkType0_def ChunkType1_def ChunkType2_def ChunkType3_def)
  have basic: "readBasicHeader ch =
      Inr (\<lparr>FMT = ChunkType3, ChunkStreamID = ucast (b AND 0x3F)\<rparr>, ch\<lparr>socketr := r\<rparr>)"
    using assms(1-4) by (simp add: readBasicHeader_def Let_def)
  have msg: "readMessageHeader \<lparr>FMT = ChunkType3, ChunkStreamID = ucast (b AND 0x3F)\<rparr>
               (ch\<lparr>socketr := r\<rparr>) =
      Inr (\<lparr>Timestamp = 0, MessageLength = MessageLength pmh,
            MessageTypeID = MessageTypeID pmh, MessageStreamID = MessageStreamID pmh\<rparr>,
           ch\<lparr>socketr := r\<rparr>)"
    using assms(5,6) t by (simp add: readMessageHeader_def Let_def prev_def)
  show ?thesis
    using assms(5)
    by (simp add: ReadChunkHeader_def basic msg Let_def prev_def t)
qed

lemma assembleLoop_round:
  assumes c3: "drop_bit 6 c3 = ChunkType3" "c3 AND 0x3F \<noteq> 0" "c3 AND 0x3F \<noteq> 1"
    and prv: "prevChunkHeader ch (ucast (c3 AND 0x3F)) = Some hp" "MessageHeader hp = Some pmh"
    and lt: "bytesRead < messageLength"
  shows "\<exists>ch1. inChunkSize ch1 = inChunkSize ch
           \<and> (\<exists>hp pmh. prevChunkHeader ch1 (ucast (c3 AND 0x3F)) = Some hp
                  \<and> MessageHeader hp = Some pmh)
           \<and> (\<forall>slice rest. length slice = unat (inChunkSize ch) \<longrightarrow>
                 bytesRead + inChunkSize ch < messageLength \<longrightarrow>
                 \<not> bytesRead + inChunkSize ch < bytesRead \<longrightarrow>
                 assembleLoop messageLength bytesRead acc (ch\<lparr>socketr := c3 # slice @ rest\<rparr>) =
                 assembleLoop messageLength (bytesRead + inChunkSize ch) (acc @ slice)
                   (ch1\<lparr>socketr := rest\<rparr>))
           \<and> (\<forall>slice rest. length slice = unat (messageLength - bytesRead) \<longrightarrow>
                 \<not> bytesRead + inChunkSize ch < messageLength \<longrightarrow>
                 assembleLoop messageLength bytesRead acc (ch\<lparr>socketr := c3 # slice @ rest\<rparr>) =
                 Inr (acc @ slice, ch1\<lparr>socketr := rest\<rparr>))"
proof -
  define h3 where "h3 =
     \<lparr>BasicHeader = Some \<lparr>FMT = ChunkType3, ChunkStreamID = ucast (c3 AND 0x3F)\<rparr>,
      MessageHeader = Some \<lparr>Timestamp = 0, MessageLength = MessageLength pmh,
                            MessageTypeID = MessageTypeID pmh,
                            MessageStreamID = MessageStreamID pmh\<rparr>,
      ExtendedTimestamp = 0, ElapsedTime = ElapsedTime hp\<rparr>"
  define ch1 where
    "ch1 = ch\<lparr>prevChunkHeader := (prevChunkHeader ch)(ucast (c3 AND 0x3F) \<mapsto> h3)\<rparr>"
  have hdr: "ReadChunkHeader (ch\<lparr>socketr := c3 # xs\<rparr>) = Inr (h3, ch1\<lparr>socketr := xs\<rparr>)" for xs
    using ReadChunkHeader_type3 [of "ch\<lparr>socketr := c3 # xs\<rparr>" c3 xs hp pmh] c3 prv
    by (simp add: h3_def ch1_def)
  have 1: "inChunkSize ch1 = inChunkSize ch" by (simp add: ch1_def)
  have 2: "\<exists>hp pmh. prevChunkHeader ch1 (ucast (c3 AND 0x3F)) = Some hp \<and> MessageHeader hp = Some pmh"
    by (simp add: ch1_def h3_def)
  have 3: "assembleLoop messageLength bytesRead acc (ch\<lparr>socketr := c3 # slice @ rest\<rparr>) =
           assembleLoop messageLength (bytesRead + inChunkSize ch) (acc @ slice) (ch1\<lparr>socketr := rest\<rparr>)"
    if "length slice = unat (inChunkSize ch)" "bytesRead + inChunkSize ch < messageLength"
      "\<not> bytesRead + inChunkSize ch < bytesRead" for slice rest
    using that lt
    by (subst assembleLoop.simps) (simp add: hdr 1 ReadFull_def)
  have 4: "assembleLoop messageLength bytesRead acc (ch\<lparr>socketr := c3 # slice @ rest\<rparr>) =
           Inr (acc @ slice, ch1\<lparr>socketr := rest\<rparr>)"
    if "length slice = unat (messageLength - bytesRead)"
      "\<not> bytesRead + inChunkSize ch < messageLength" for slice rest
  proof -
    have "assembleLoop messageLength bytesRead acc (ch\<lparr>socketr := c3 # slice @ rest\<rparr>) =
          assembleLoop messageLength (bytesRead + (messageLength - bytesRead)) (acc @ slice)
            (ch1\<lparr>socketr := rest\<rparr>)"
      using that lt
      by (subst assembleLoop.simps) (simp add: hdr 1 ReadFull_def Let_def)
    also have "\<dots> = Inr (acc @ slice, ch1\<lparr>socketr := rest\<rparr>)"
      by (subst assembleLoop.simps) simp
    finally show ?thesis .
  qed
  from 1 2 3 4 show ?thesis by blast
qed

lemma chunk_loops:
  fixes c3 :: u8 and payload :: "u8 list" and n bw :: nat
  assumes c3: "drop_bit 6 c3 = ChunkType3" "c3 AND 0x3F \<noteq> 0" "c3 AND 0x3F \<noteq> 1"
    and n: "0 < n" "n < length payload" and L: "length payload < 2 ^ 31"
    and bw: "bw \<le> length payload"
  shows "\<exists>body.
      (\<forall>out. sendLoop c3 n payload bw False out = Some (out @ map Raw body))
    \<and> (\<forall>ch rest acc.
         inChunkSize ch = of_nat n \<longrightarrow>
         (\<exists>hp pmh. prevChunkHeader ch (ucast (c3 AND 0x3F)) = Some hp
              \<and> MessageHeader hp = Some pmh) \<longrightarrow>
         map_sum id (apsnd socketr)
           (assembleLoop (of_nat (length payload)) (of_nat bw) acc
              (ch\<lparr>socketr := concat body @ rest\<rparr>))
         = Inr (acc @ drop bw payload, rest))"
  using bw
proof (induction "length payload - bw" arbitrary: bw rule: less_induct)
  case less
  let ?L = "length payload"
  let ?mlen = "of_nat ?L :: u32"
  let ?br = "of_nat bw :: u32"
  have b: "?L < 2 ^ 32" "bw < 2 ^ 32" "n < 2 ^ 32" "bw + n < 2 ^ 32"
    using L n less.prems by simp_all
  show ?case
  proof (cases "bw < ?L")
    case False
    then have e: "bw = ?L" using less.prems by simp
    have s: "sendLoop c3 n payload bw False out = Some (out @ map Raw [])" for out
      by (subst sendLoop.simps) (simp add: e)
    have r: "map_sum id (apsnd socketr)
               (assembleLoop ?mlen ?br acc (ch\<lparr>socketr := concat [] @ rest\<rparr>))
             = Inr (acc @ drop bw payload, rest)" for ch rest acc
      by (subst assembleLoop.simps) (simp add: e)
    from s r show ?thesis by blast
  next
    case True
    then have lt: "?br < ?mlen" using b by (simp add: u32_of_nat)
    show ?thesis
    proof (cases "bw + n < ?L")
      case full: True
      define slice where "slice = take n (drop bw payload)"
      have len: "length slice = n" using full by (simp add: slice_def)
      have "?L - (bw + n) < ?L - bw" using full n by simp
      moreover have "bw + n \<le> ?L" using full by simp
      ultimately obtain body' where
        s': "\<And>out. sendLoop c3 n payload (bw + n) False out = Some (out @ map Raw body')"
        and r': "\<And>ch rest acc. inChunkSize ch = of_nat n \<Longrightarrow>
           (\<exists>hp pmh. prevChunkHeader ch (ucast (c3 AND 0x3F)) = Some hp
              \<and> MessageHeader hp = Some pmh) \<Longrightarrow>
           map_sum id (apsnd socketr)
             (assembleLoop ?mlen (of_nat (bw + n)) acc (ch\<lparr>socketr := concat body' @ rest\<rparr>))
           = Inr (acc @ drop (bw + n) payload, rest)"
        using less.hyps [of "bw + n"] by blast
      have s: "sendLoop c3 n payload bw False out
                 = Some (out @ map Raw ([c3] # slice # body'))" for out
        using True full by (subst sendLoop.simps) (simp add: s' slice_def)
      have r: "map_sum id (apsnd socketr)
                 (assembleLoop ?mlen ?br acc
                    (ch\<lparr>socketr := concat ([c3] # slice # body') @ rest\<rparr>))
               = Inr (acc @ drop bw payload, rest)"
        if inv: "inChunkSize ch = of_nat n"
          "\<exists>hp pmh. prevChunkHeader ch (ucast (c3 AND 0x3F)) = Some hp \<and> MessageHeader hp = Some pmh"
        for ch rest acc
      proof -
        from inv(2) obtain hp pmh where
          prv: "prevChunkHeader ch (ucast (c3 AND 0x3F)) = Some hp" "MessageHeader hp = Some pmh"
          by blast
        have c1: "?br + inChunkSize ch < ?mlen"
          using full b inv(1) by (simp add: u32_of_nat flip: of_nat_add)
        have c2: "\<not> ?br + inChunkSize ch < ?br"
          using b inv(1) by (simp add: u32_of_nat flip: of_nat_add)
        have c3': "length slice = unat (inChunkSize ch)"
          using len b inv(1) by (simp add: u32_of_nat)
        from assembleLoop_round [OF c3 prv lt, of acc] obtain ch1 where
          i1: "inChunkSize ch1 = inChunkSize ch"
          and i2: "\<exists>hp pmh. prevChunkHeader ch1 (ucast (c3 AND 0x3F)) = Some hp
                      \<and> MessageHeader hp = Some pmh"
          and step: "\<And>slice rest. length slice = unat (inChunkSize ch) \<Longrightarrow>
                 ?br + inChunkSize ch < ?mlen \<Longrightarrow> \<not> ?br + inChunkSize ch < ?br \<Longrightarrow>
                 assembleLoop ?mlen ?br acc (ch\<lparr>socketr := c3 # slice @ rest\<rparr>) =
                 assembleLoop ?mlen (?br + inChunkSize ch) (acc @ slice) (ch1\<lparr>socketr := rest\<rparr>)"
          by blast
        have "assembleLoop ?mlen ?br acc (ch\<lparr>socketr := concat ([c3] # slice # body') @ rest\<rparr>)
              = assembleLoop ?mlen (of_nat (bw + n)) (acc @ slice)
                  (ch1\<lparr>socketr := concat body' @ rest\<rparr>)"
          using step [OF c3' c1 c2, of "concat body' @ rest"] inv(1) by simp
        moreover have "slice @ drop (bw + n) payload = drop bw payload"
          unfolding slice_def by (metis add.commute append_take_drop_id drop_drop)
        ultimately show ?thesis
          using r' [of ch1 "acc @ slice" rest] i1 i2 inv(1) by simp
      qed
      from s r show ?thesis by blast
    next
      case last: False
      define slice where "slice = drop bw payload"
      have len: "length slice = ?L - bw" by (simp add: slice_def)
      have s: "sendLoop c3 n payload bw False out = Some (out @ map Raw [[c3], slice])" for out
      proof -
        have "sendLoop c3 n payload bw False out
              = sendLoop c3 n payload ?L False (out @ [Raw [c3], Raw slice])"
          using True last by (subst sendLoop.simps) (simp add: slice_def Let_def)
        also have "\<dots> = Some (out @ [Raw [c3], Raw slice])"
          by (subst sendLoop.simps) simp
        finally show ?thesis by simp
      qed
      have r: "map_sum id (apsnd socketr)
                 (assembleLoop ?mlen ?br acc (ch\<lparr>socketr := concat [[c3], slice] @ rest\<rparr>))
               = Inr (acc @ drop bw payload, rest)"
        if inv: "inChunkSize ch = of_nat n"
          "\<exists>hp pmh. prevChunkHeader ch (ucast (c3 AND 0x3F)) = Some hp \<and> MessageHeader hp = Some pmh"
        for ch rest acc
      proof -
        from inv(2) obtain hp pmh where
          prv: "prevChunkHeader ch (ucast (c3 AND 0x3F)) = Some hp" "MessageHeader hp = Some pmh"
          by blast
        have c1: "\<not> ?br + inChunkSize ch < ?mlen"
          using last b inv(1) by (simp add: u32_of_nat flip: of_nat_add)
        have "?mlen - ?br = of_nat (?L - bw)"
          using less.prems by simp
        then have c2: "length slice = unat (?mlen - ?br)"
          using len b by (simp add: u32_of_nat)
        from assembleLoop_round [OF c3 prv lt, of acc] obtain ch1 where
          step: "\<And>slice rest. length slice = unat (?mlen - ?br) \<Longrightarrow>
                 \<not> ?br + inChunkSize ch < ?mlen \<Longrightarrow>
                 assembleLoop ?mlen ?br acc (ch\<lparr>socketr := c3 # slice @ rest\<rparr>) =
                 Inr (acc @ slice, ch1\<lparr>socketr := rest\<rparr>)"
          by blast
        show ?thesis
          using step [OF c2 c1, of rest] by (simp add: slice_def)
      qed
      from s r show ?thesis by blast
    qed
  qed
qed

text \<open>
  Claim C3, at the input where the code departs from it. A message in a type-0 chunk with
  timestamp 1000 is read in full; the next chunk on the same chunk stream is of type 3.
  Its header inherits the message length, the type id and the stream id, but its
  \<open>Timestamp\<close> is 0, not the preceding timestamp 1000, and the elapsed time of the chunk
  stream stays at 1000.
\<close>

theorem type3_timestamp_not_inherited:
  "ReadChunkHeader (NewChunkHandler bytes_type0_type3)
     = Inr (hdr_type0, ch_type0_read [0xAF, 0x01, 0xC3, 0xAF, 0x02])
   \<and> ReadChunkData hdr_type0 (ch_type0_read [0xAF, 0x01, 0xC3, 0xAF, 0x02])
     = Inr ([0xAF, 0x01], ch_type0_read [0xC3, 0xAF, 0x02])
   \<and> ReadChunkHeader (ch_type0_read [0xC3, 0xAF, 0x02])
     = Inr (hdr_type3, (NewChunkHandler [0xAF, 0x02])\<lparr>prevChunkHeader := [3 \<mapsto> hdr_type3]\<rparr>)
   \<and> Timestamp (the (MessageHeader hdr_type3)) = 0
   \<and> ElapsedTime hdr_type3 = ElapsedTime hdr_type0"
  by (simp add: ReadChunkHeader_def readBasicHeader_def readMessageHeader_def ReadChunkData_def
      ReadFull_def NewChunkHandler_def bytes_type0_type3_def hdr_type0_def hdr_type3_def
      ch_type0_read_def Let_def ChunkType0_def ChunkType1_def ChunkType2_def ChunkType3_def
      BigEndian_Uint32_def LittleEndian_Uint32_def prev_def zeroChunkHeader_def
      DefaultMaximumChunkSize_def)

text \<open>
  Claim C2, at the input where the code departs from it. Chunks of message A on chunk
  stream 3 and of message B on chunk stream 4 interleave. After the first chunk of A,
  \<open>assembleMessage\<close> reads the next chunk header, which belongs to B, and copies the byte
  B1 that follows it into the one buffer it fills: the payload returned for A is A1 A2 B1,
  not the bytes A1 A2 A3 sent for it.
\<close>

theorem interleaved_counterexample:
  "ReadChunkHeader (SetChunkSize 2 (NewChunkHandler bytes_interleaved)) = Inr (hdr_A, ch_A_read)
   \<and> map_sum id fst (ReadChunkData hdr_A ch_A_read) = Inr [0xA1, 0xA2, 0xB1]
   \<and> [0xA1, 0xA2, 0xB1] \<noteq> [0xA1, 0xA2, 0xA3 :: u8]"
  by (simp add: ReadChunkHeader_def readBasicHeader_def readMessageHeader_def ReadChunkData_def
      assembleMessage_def SetChunkSize_def
      ReadFull_def NewChunkHandler_def bytes_interleaved_def hdr_A_def ch_A_read_def
      Let_def ChunkType0_def ChunkType1_def ChunkType2_def ChunkType3_def
      BigEndian_Uint32_def LittleEndian_Uint32_def prev_def zeroChunkHeader_def
      DefaultMaximumChunkSize_def)

text \<open>
  A continuation chunk on a chunk stream on which no chunk has been read before has no
  previous header to inherit from: the nil pointer is dereferenced inside
  \<open>ReadChunkHeader\<close> and the panic passes through \<open>assembleMessage\<close>.
\<close>

lemma continuation_without_previous_header:
  "ReadChunkData hdr_A ch_no_prev = Inl PanicNilPointer"
  by (simp add: ReadChunkHeader_def readBasicHeader_def readMessageHeader_def ReadChunkData_def
      assembleMessage_def SetChunkSize_def ch_no_prev_def
      ReadFull_def NewChunkHandler_def hdr_A_def
      Let_def ChunkType0_def ChunkType1_def ChunkType2_def ChunkType3_def
      prev_def zeroChunkHeader_def DefaultMaximumChunkSize_def)

text \<open>
  Where the chunks of a message follow one another on the connection the single buffer
  is enough. For a literal chunk stream id, a chunk size above 0 that both sides use and a
  payload of fewer than \<open>2 ^ 31\<close> bytes, \<open>send\<close> returns, and \<open>ReadChunkData\<close> applied to what
  \<open>send\<close> wrote after the header returns exactly the payload and leaves the input that
  follows the message.
\<close>

theorem ReadChunkData_send:
  assumes hdr: "header = b # hs" and csid: "b AND 0x3F \<noteq> 0" "b AND 0x3F \<noteq> 1"
    and sz: "0 < outChunkSize w" "inChunkSize r = outChunkSize w"
    and L: "length payload < 2 ^ 31"
    and h: "MessageHeader h = Some mh" "MessageLength mh = of_nat (length payload)"
    and prv: "prevChunkHeader r (ucast (b AND 0x3F)) = Some h"
  shows "\<exists>body.
           send header payload w = Some (Inr (w\<lparr>socketw := socketw w @ Raw header # map Raw body\<rparr>))
         \<and> (\<forall>rest. map_sum id (apsnd socketr) (ReadChunkData h (r\<lparr>socketr := concat body @ rest\<rparr>))
                  = Inr (payload, rest))"
proof -
  let ?L = "length payload"
  define n where "n = unat (outChunkSize w)"
  have b: "?L < 2 ^ 32" "n < 2 ^ 32"
    using L unsigned_less [of "outChunkSize w", where 'a = nat] by (simp_all add: n_def)
  have ics: "inChunkSize r = of_nat n" using sz by (simp add: n_def)
  have n0: "0 < n" using sz by (simp add: n_def unat_gt_0)
  have gt: "(of_nat ?L > inChunkSize r) = (n < ?L)"
    using b by (simp add: ics u32_of_nat)
  show ?thesis
  proof (cases "n < ?L")
    case False
    have s: "send header payload w
             = Some (Inr (w\<lparr>socketw := socketw w @ Raw header # map Raw [payload]\<rparr>))"
      using False by (simp add: send_def n_def Let_def)
    have r: "map_sum id (apsnd socketr) (ReadChunkData h (r\<lparr>socketr := concat [payload] @ rest\<rparr>))
             = Inr (payload, rest)" for rest
      using False gt h b by (simp add: ReadChunkData_def Let_def ReadFull_def u32_of_nat)
    from s r show ?thesis by blast
  next
    case True
    define c3 where "c3 = push_bit 6 ChunkType3 OR (b AND 0x3F)"
    have c: "c3 AND 0x3F = b AND 0x3F"
      unfolding c3_def by (rule type3_byte(2))
    have "drop_bit 6 c3 = ChunkType3"
      unfolding c3_def by (rule type3_byte(1))
    then have c3: "drop_bit 6 c3 = ChunkType3" "c3 AND 0x3F \<noteq> 0" "c3 AND 0x3F \<noteq> 1"
      using csid unfolding c by simp_all
    from chunk_loops [OF c3 n0 True L, of n] True obtain body' where
      s': "\<And>out. sendLoop c3 n payload n False out = Some (out @ map Raw body')"
      and r': "\<And>ch rest acc. inChunkSize ch = of_nat n \<Longrightarrow>
           (\<exists>hp pmh. prevChunkHeader ch (ucast (c3 AND 0x3F)) = Some hp
              \<and> MessageHeader hp = Some pmh) \<Longrightarrow>
           map_sum id (apsnd socketr)
             (assembleLoop (of_nat ?L) (of_nat n) acc (ch\<lparr>socketr := concat body' @ rest\<rparr>))
           = Inr (acc @ drop n payload, rest)"
      by auto
    have first: "sendLoop c3 n payload 0 True out
                 = Some (out @ map Raw (take n payload # body'))" for out
      using True n0 by (subst sendLoop.simps) (auto simp add: s')
    have s: "send header payload w
             = Some (Inr (w\<lparr>socketw := socketw w @ Raw header # map Raw (take n payload # body')\<rparr>))"
      using True hdr by (simp add: send_def Let_def first flip: n_def c3_def)
    have r: "map_sum id (apsnd socketr)
               (ReadChunkData h (r\<lparr>socketr := concat (take n payload # body') @ rest\<rparr>))
             = Inr (payload, rest)" for rest
    proof -
      have inv: "\<exists>hp pmh. prevChunkHeader r (ucast (c3 AND 0x3F)) = Some hp
                   \<and> MessageHeader hp = Some pmh"
        using prv h by (simp add: c)
      have "\<not> of_nat ?L < inChunkSize r" using gt True by simp
      moreover have "unat (inChunkSize r) = n" using sz by (simp add: n_def)
      ultimately have "ReadChunkData h (r\<lparr>socketr := concat (take n payload # body') @ rest\<rparr>)
            = assembleLoop (of_nat ?L) (of_nat n) (take n payload)
                (r\<lparr>socketr := concat body' @ rest\<rparr>)"
        using True gt h
        by (simp add: ReadChunkData_def assembleMessage_def Let_def ReadFull_def ics)
      then show ?thesis using r' [OF ics inv, of "take n payload" rest] by simp
    qed
    from s r show ?thesis by blast
  qed
qed

theorem ReadChunkData_send_witness:
  "\<exists>body.
     send hdr_bytes5 [1, 2, 3, 4, 5] ch_writer
       = Some (Inr (ch_writer\<lparr>socketw := Raw hdr_bytes5 # map Raw body\<rparr>))
   \<and> (\<forall>rest. map_sum id (apsnd socketr)
                (ReadChunkData hdr_5 (ch_reader\<lparr>socketr := concat body @ rest\<rparr>))
              = Inr ([1, 2, 3, 4, 5], rest))"
proof -
  have 1: "hdr_bytes5 = 0x03 # tl hdr_bytes5" by (simp add: hdr_bytes5_def)
  have 2: "(0x03 :: u8) AND 0x3F \<noteq> 0" "(0x03 :: u8) AND 0x3F \<noteq> 1" by simp_all
  have 3: "0 < outChunkSize ch_writer" "inChunkSize ch_reader = outChunkSize ch_writer"
    by (simp_all add: ch_writer_def ch_reader_def SetChunkSize_def NewChunkHandler_def)
  have 4: "length [1, 2, 3, 4, 5 :: u8] < 2 ^ 31" by simp
  have 5: "MessageHeader hdr_5 = Some \<lparr>Timestamp = 0, MessageLength = 5, MessageTypeID = 9,
                            MessageStreamID = 1\<rparr>"
    "MessageLength \<lparr>Timestamp = 0, MessageLength = 5, MessageTypeID = 9,
                            MessageStreamID = 1\<rparr> = of_nat (length [1, 2, 3, 4, 5 :: u8])"
    by (simp_all add: hdr_5_def)
  have 6: "prevChunkHeader ch_reader (ucast ((0x03 :: u8) AND 0x3F)) = Some hdr_5"
    by (simp add: ch_reader_def SetChunkSize_def NewChunkHandler_def)
  from ReadChunkData_send [OF 1 2 3 4 5 6] show ?thesis
    by (simp add: ch_writer_def NewChunkHandler_def)
qed

end
